theory Spec2Isabelle
  imports
    Main
    "HOL-Library.Log_Nat"
    "HOL-Library.Char_ord"
    "HOL-Library.List_Lexorder"
    "HOL-Library.Product_Lexorder"
begin

section \<open>Sumner Tunnel ridership analysis: the data pipeline of main.py\<close>

text \<open>
  The program reads two CSV exports with pandas, cleans them per transit line
  (\<open>get_line_entries\<close>), sums the entries per day and stop (\<open>daily_ridership\<close>) and prints
  statistics per line (\<open>overall_stats\<close>) and per station (\<open>station_stats\<close>, which calls
  \<open>check_missing\<close>). A DataFrame is modelled as the list of its rows in order; the row
  labels of the input frames are never read by the program and are left out. Strings are
  byte strings (ASCII station and line names). What a function prints is part of the value
  it returns in the model; an exception is the \<open>Inl\<close> branch of a sum.
\<close>

subsection \<open>Exceptions\<close>

text \<open>
  The exceptions the program can raise: \<open>UnboundLocalError\<close> for a local variable read
  before any assignment; \<open>ValueError\<close> for a date that does not parse, for \<open>round\<close> or an
  integer cast of NaN and for \<open>NaT.strftime\<close>; \<open>OverflowError\<close> for \<open>int\<close> of an infinite
  float; \<open>IndexError\<close> for an index out of range.
\<close>

datatype error = UnboundLocalError | ValueError | OverflowError | IndexError

subsection \<open>Rows and frames\<close>

text \<open>
  The column \<open>Service Date\<close> holds strings when the CSV has just been read, and pandas
  timestamps after \<open>pd.to_datetime\<close>. A timestamp is modelled by its day number (days since
  1970-01-01): the data is daily, and the two windows of the program are lists of
  midnights. \<open>Total Entries\<close> is an integer column, int64 in pandas: its cells are integers
  from \<open>- (2 ^ 63)\<close> to \<open>2 ^ 63 - 1\<close>, and a sum or difference of such columns wraps around
  at these ends, which \<open>wrap64\<close> writes out. Every cell holds a value: missing cells (NaN,
  NaT) are outside the model.
\<close>

definition wrap64 :: "int \<Rightarrow> int" where
  "wrap64 x = (x + 2 ^ 63) mod 2 ^ 64 - 2 ^ 63"

definition int64_range :: "int \<Rightarrow> bool" where
  "int64_range x \<longleftrightarrow> - (2 ^ 63) \<le> x \<and> x < 2 ^ 63"

datatype date_cell = DateStr string | Timestamp int

record 'd row =
  Service_Date :: 'd
  Stop_Name :: string
  Route_Or_Line :: string
  Total_Entries :: int
  day :: string

definition OL_STATIONS :: "string list" where
  "OL_STATIONS = [''Oak Grove'', ''Malden Center'', ''Wellington'', ''Assembly'',
     ''Sullivan Square'', ''Community College'', ''North Station'',
     ''Haymarket'', ''State Street'']"

definition BL_STATIONS :: "string list" where
  "BL_STATIONS = [''Wonderland'', ''Revere Beach'', ''Beachmont'', ''Suffolk Downs'',
     ''Orient Heights'', ''Wood Island'', ''Airport'', ''Maverick'',
     ''Aquarium'', ''State Street'', ''Government Center'', ''Bowdoin'']"

subsection \<open>get_line_entries\<close>

text \<open>
  \<open>pd.to_datetime\<close> leaves a timestamp as it is and parses a string; the parser of pandas
  is a parameter \<open>parse\<close> of the model (\<open>None\<close>: the string is no date, and pandas raises).
\<close>

definition to_datetime :: "(string \<Rightarrow> int option) \<Rightarrow> date_cell \<Rightarrow> int option" where
  "to_datetime parse c = (case c of Timestamp t \<Rightarrow> Some t | DateStr s \<Rightarrow> parse s)"

definition set_date :: "'a row \<Rightarrow> 'b \<Rightarrow> 'b row" where
  "set_date r d = \<lparr>Service_Date = d, Stop_Name = Stop_Name r,
     Route_Or_Line = Route_Or_Line r, Total_Entries = Total_Entries r, day = day r\<rparr>"

definition convert_row :: "(string \<Rightarrow> int option) \<Rightarrow> date_cell row \<Rightarrow> int row option" where
  "convert_row parse r = map_option (set_date r) (to_datetime parse (Service_Date r))"

definition stamp :: "int row \<Rightarrow> date_cell row" where
  "stamp r = set_date r (Timestamp (Service_Date r))"

text \<open>Line 66: \<open>df.loc[df['Stop Name'].isin(stops), 'Route Or Line'] = line\<close>, on one row.\<close>

definition assign_line :: "string list \<Rightarrow> string \<Rightarrow> 'd row \<Rightarrow> 'd row" where
  "assign_line stops line r =
     (if Stop_Name r \<in> set stops then r\<lparr>Route_Or_Line := line\<rparr> else r)"

text \<open>
  Lines 66 to 81, on the frame that the local name \<open>df\<close> is bound to at line 66. Both
  assignments (66 and 70) write into that frame; the two selections after them make new
  frames. The result is the frame \<open>df\<close> was bound to, as the assignments leave it, and
  what the function returns or raises. When a date does not parse, line 70 raises after
  line 66 has run.
\<close>

definition clean_frame ::
  "(string \<Rightarrow> int option) \<Rightarrow> date_cell row list \<Rightarrow> string list \<Rightarrow> string \<Rightarrow> bool
     \<Rightarrow> date_cell row list \<times> (error + int row list)" where
  "clean_frame parse df stops line weekdays_only =
     (let df1 = map (assign_line stops line) df in
      case those (map (convert_row parse) df1) of
        None \<Rightarrow> (df1, Inl ValueError)
      | Some df2 \<Rightarrow>
          (let df3 = (if weekdays_only then filter (\<lambda>r. day r = ''Weekday'') df2 else df2);
               cleaned_df = filter (\<lambda>r. Route_Or_Line r = line) df3
           in (map stamp df2, Inr cleaned_df)))"

text \<open>
  The whole function. The first component is the caller's frame after the call. For the
  Blue Line \<open>df\<close> is still the caller's frame at line 66, so the caller sees the
  assignments. For the Orange Line line 61 rebinds \<open>df\<close> to a selection, which is a new
  frame, and the caller's frame stays as it was. For any other line the \<open>else\<close> branch
  prints a message and binds nothing: reading \<open>stops\<close> at line 66 raises before anything is
  written.
\<close>

definition get_line_entries ::
  "(string \<Rightarrow> int option) \<Rightarrow> date_cell row list \<Rightarrow> string \<Rightarrow> bool
     \<Rightarrow> date_cell row list \<times> (error + int row list)" where
  "get_line_entries parse df line weekdays_only =
     (if line = ''Blue Line'' then
        clean_frame parse df [''Government Center'', ''State Street''] line weekdays_only
      else if line = ''Orange Line'' then
        (df, snd (clean_frame parse (filter (\<lambda>r. Stop_Name r \<in> set OL_STATIONS) df)
                    [''Haymarket'', ''North Station'', ''State Street''] line weekdays_only))
      else (df, Inl UnboundLocalError))"

text \<open>The value of \<open>stops\<close> in the two branches that bind it (lines 58 and 60).\<close>

definition stops_of :: "string \<Rightarrow> string list" where
  "stops_of line = (if line = ''Blue Line'' then [''Government Center'', ''State Street'']
     else [''Haymarket'', ''North Station'', ''State Street''])"

subsection \<open>daily_ridership\<close>

text \<open>
  The grouped frame has the columns \<open>Service Date\<close>, \<open>Stop Name\<close> and \<open>Total Entries\<close>.
  \<open>groupby\<close> orders the groups by their keys. The sum of a group is an int64 sum. On an
  integer column \<open>round()\<close> and \<open>astype(int)\<close> change nothing, so the cell is that sum.
\<close>

record daily =
  date :: int
  stop :: string
  total :: int

definition daily_ridership :: "int row list \<Rightarrow> daily list" where
  "daily_ridership df =
     map (\<lambda>(d, s). \<lparr>date = d, stop = s,
            total = wrap64 (sum_list (map Total_Entries
                      (filter (\<lambda>r. Service_Date r = d \<and> Stop_Name r = s) df)))\<rparr>)
       (sort (remdups (map (\<lambda>r. (Service_Date r, Stop_Name r)) df)))"

subsection \<open>The two windows\<close>



subsection \<open>Floating point\<close>

text \<open>
  Means and percentages are float64 values. A finite one is modelled by the rational number
  it denotes; \<open>fl64\<close> rounds a rational to the nearest number with a 53-bit significand,
  ties to even, as every float64 operation does with its exact result. The exponent is not
  bounded in the model (no overflow to infinity and no subnormal numbers: the operands of
  the program are ridership counts). Infinities and NaN are values of their own, since
  numpy and pandas return them from a division by zero instead of raising.
\<close>

definition round_half_even :: "rat \<Rightarrow> int" where
  "round_half_even x = (let f = \<lfloor>x\<rfloor>; d = x - of_int f in
     if d < 1 / 2 then f else if 1 / 2 < d then f + 1 else if even f then f else f + 1)"

definition pow2 :: "int \<Rightarrow> rat" where
  "pow2 e = (if 0 \<le> e then 2 ^ nat e else 1 / 2 ^ nat (- e))"

text \<open>\<open>ilog2 x\<close> is the exponent of a positive \<open>x\<close>: \<open>pow2 (ilog2 x) \<le> x < pow2 (ilog2 x + 1)\<close>.\<close>

definition ilog2 :: "rat \<Rightarrow> int" where
  "ilog2 x = (case quotient_of x of (p, q) \<Rightarrow>
     let k = bitlen p - bitlen q in if pow2 k \<le> x then k else k - 1)"

definition fl64 :: "rat \<Rightarrow> rat" where
  "fl64 x = (if x = 0 then 0 else
     let e = ilog2 \<bar>x\<bar> - 52 in of_int (round_half_even (x / pow2 e)) * pow2 e)"

datatype float64 = Finite rat | PosInf | NegInf | NaN






text \<open>Python's \<open>int(round(x))\<close> on a float: \<open>round\<close> itself raises on NaN and infinity.\<close>

definition int_round :: "float64 \<Rightarrow> error + int" where
  "int_round x = (case x of Finite r \<Rightarrow> Inr (round_half_even r) | NaN \<Rightarrow> Inl ValueError
     | _ \<Rightarrow> Inl OverflowError)"


text \<open>
  The mean of an integer column: NaN when the column is empty, else the float64 quotient of
  the sum by the number of cells. pandas adds the cells up in float64, which is exact as
  long as the partial sums stay below \<open>2 ^ 53\<close>; the model rounds the exact sum once.
\<close>

definition mean :: "int list \<Rightarrow> float64" where
  "mean xs = (if xs = [] then NaN
     else Finite (fl64 (fl64 (of_int (sum_list xs)) / of_int (int (length xs)))))"

text \<open>An operation on a column raises when it raises on a cell.\<close>

fun column :: "(error + 'a) list \<Rightarrow> error + 'a list" where
  "column [] = Inr []"
| "column (c # cs) =
     (case c of Inl e \<Rightarrow> Inl e
      | Inr v \<Rightarrow> (case column cs of Inl e \<Rightarrow> Inl e | Inr vs \<Rightarrow> Inr (v # vs)))"

subsection \<open>Strings\<close>

definition startswith :: "string \<Rightarrow> string \<Rightarrow> bool" where
  "startswith s p = (take (length p) s = p)"

definition isspace :: "char \<Rightarrow> bool" where
  "isspace c = (let n = (of_char c :: nat) in (9 \<le> n \<and> n \<le> 13) \<or> (28 \<le> n \<and> n \<le> 32))"

text \<open>\<open>s.split()\<close>: the maximal runs of characters that are not whitespace.\<close>

fun split_from :: "string \<Rightarrow> string \<Rightarrow> string list" where
  "split_from w [] = (if w = [] then [] else [w])"
| "split_from w (c # cs) =
     (if isspace c then (if w = [] then split_from [] cs else w # split_from [] cs)
      else split_from (w @ [c]) cs)"

definition split :: "string \<Rightarrow> string list" where
  "split s = split_from [] s"


subsection \<open>overall_stats\<close>




subsection \<open>check_missing\<close>

text \<open>
  \<open>value_counts\<close>: the distinct dates with the number of rows of each, the most frequent
  first (pandas does not fix the order of dates with equal counts; nothing below depends on
  it).
\<close>

definition value_counts :: "int list \<Rightarrow> (int \<times> nat) list" where
  "value_counts ds = sort_key (\<lambda>(d, c). - int c) (map (\<lambda>d. (d, count_list ds d)) (remdups ds))"

text \<open>One printed line: the line name, the date and the set of stops printed after it.\<close>

record missing_msg =
  msg_line :: string
  msg_date :: int
  msg_stops :: "string set"

text \<open>
  The function only prints (its \<open>return\<close> is commented out), so a call evaluates to Python's
  \<open>None\<close>. The model returns what is printed, paired with the value of the call:
  \<open>None\<close> here is Python's \<open>None\<close>.
\<close>

definition check_missing ::
  "daily list \<Rightarrow> string \<Rightarrow> missing_msg list \<times> missing_msg list option" where
  "check_missing after_sumner line =
     (let date_counts = value_counts (map date after_sumner);
          dates_missing =
            (if startswith line ''Orange Line'' then
               map fst (filter (\<lambda>(d, c). c < length OL_STATIONS) date_counts)
             else if startswith line ''Blue Line'' then
               map fst (filter (\<lambda>(d, c). c < length BL_STATIONS) date_counts)
             else [])
      in (concat (map (\<lambda>d.
            let temp_stops = map stop (filter (\<lambda>r. date r = d) after_sumner) in
            if startswith line ''Orange Line'' then
              [\<lparr>msg_line = line, msg_date = d,
                msg_stops = set OL_STATIONS - set temp_stops\<rparr>]
            else if startswith line ''Blue Line'' then
              [\<lparr>msg_line = line, msg_date = d,
                msg_stops = set BL_STATIONS - set temp_stops\<rparr>]
            else []) dates_missing), None))"

text \<open>The dates selected at line 230 or 232, for an expected number \<open>n\<close> of stations.\<close>

definition dates_below :: "daily list \<Rightarrow> nat \<Rightarrow> int list" where
  "dates_below after_sumner n =
     map fst (filter (\<lambda>(d, c). c < n) (value_counts (map date after_sumner)))"

subsection \<open>station_stats\<close>

text \<open>
  \<open>full_df\<close> after line 293: one row per station of either window, with the mean of the
  station's entries in each window. A station without rows in a window has NaN there.
  Both groupings order the stations by name.
\<close>

definition entries_of :: "daily list \<Rightarrow> string \<Rightarrow> int list" where
  "entries_of df s = map total (filter (\<lambda>r. stop r = s) df)"

definition station_names :: "daily list \<Rightarrow> daily list \<Rightarrow> string list" where
  "station_names before_sumner after_sumner =
     sort (remdups (map stop (before_sumner @ after_sumner)))"

definition station_means :: "daily list \<Rightarrow> daily list \<Rightarrow> (string \<times> float64 \<times> float64) list" where
  "station_means before_sumner after_sumner =
     map (\<lambda>s. (s, mean (entries_of before_sumner s), mean (entries_of after_sumner s)))
       (station_names before_sumner after_sumner)"

text \<open>Lines 296 and 297: both columns through \<open>int(round(x))\<close>.\<close>

definition rounded_means ::
  "daily list \<Rightarrow> daily list \<Rightarrow> error + (string \<times> int \<times> int) list" where
  "rounded_means before_sumner after_sumner =
     column (map (\<lambda>(s, bc, ac).
        case int_round bc of Inl e \<Rightarrow> Inl e
        | Inr b \<Rightarrow> (case int_round ac of Inl e \<Rightarrow> Inl e | Inr a \<Rightarrow> Inr (s, b, a)))
       (station_means before_sumner after_sumner))"










subsection \<open>The figures in exact arithmetic\<close>

text \<open>
  What the table is meant to hold, written without floats: the mean of a station's entries
  in a window as an exact fraction, rounded to the nearest integer (ties to even); the
  rows of these for the stations in the order of their names; and the sums of the two
  columns in unbounded integers. \<open>small_sums\<close> bounds, for every station and window, the
  sum of the absolute values of the entries by \<open>2 ^ 52\<close>: below it every partial sum is a
  float64, and the float64 mean rounds as the exact one does.
\<close>

definition rounded_mean_exact :: "int list \<Rightarrow> int" where
  "rounded_mean_exact xs = round_half_even (of_int (sum_list xs) / of_int (int (length xs)))"





section \<open>Example inputs\<close>

text \<open>
  Small inputs on which the theorems below are evaluated. \<open>ex_parse\<close> stands for the date
  parser of pandas on the two date strings of \<open>ex_frame\<close>.
\<close>

definition ex_parse :: "string \<Rightarrow> int option" where
  "ex_parse s = (if s = ''2023-06-15'' then Some 19523
     else if s = ''2023-07-10'' then Some 19548 else None)"

definition ex_green :: "date_cell row" where
  "ex_green = \<lparr>Service_Date = DateStr ''2023-07-10'', Stop_Name = ''Oak Grove'',
     Route_Or_Line = ''Green Line'', Total_Entries = 7, day = ''Saturday''\<rparr>"

definition ex_frame :: "date_cell row list" where
  "ex_frame =
     [\<lparr>Service_Date = DateStr ''2023-06-15'', Stop_Name = ''Oak Grove'',
        Route_Or_Line = ''Orange Line'', Total_Entries = 100, day = ''Weekday''\<rparr>,
      \<lparr>Service_Date = DateStr ''2023-06-15'', Stop_Name = ''State Street'',
        Route_Or_Line = ''Orange Line'', Total_Entries = 50, day = ''Weekday''\<rparr>,
      ex_green,
      \<lparr>Service_Date = DateStr ''2023-07-10'', Stop_Name = ''Airport'',
        Route_Or_Line = ''Blue Line'', Total_Entries = 30, day = ''Weekday''\<rparr>]"

definition ex_cleaned :: "int row list" where
  "ex_cleaned =
     [\<lparr>Service_Date = 19523, Stop_Name = ''Wellington'',
        Route_Or_Line = ''Orange Line'', Total_Entries = 5, day = ''Weekday''\<rparr>,
      \<lparr>Service_Date = 19523, Stop_Name = ''Oak Grove'',
        Route_Or_Line = ''Orange Line'', Total_Entries = 100, day = ''Weekday''\<rparr>,
      \<lparr>Service_Date = 19523, Stop_Name = ''Wellington'',
        Route_Or_Line = ''Orange Line'', Total_Entries = 7, day = ''Weekday''\<rparr>]"

definition ex_daily :: "daily list" where
  "ex_daily = [\<lparr>date = 19510, stop = ''Oak Grove'', total = 100\<rparr>,
               \<lparr>date = 19511, stop = ''Oak Grove'', total = 101\<rparr>,
               \<lparr>date = 19510, stop = ''Wellington'', total = 200\<rparr>,
               \<lparr>date = 19510, stop = ''Kenmore'', total = 40\<rparr>,
               \<lparr>date = 19550, stop = ''Kenmore'', total = 63\<rparr>,
               \<lparr>date = 19550, stop = ''Oak Grove'', total = 120\<rparr>,
               \<lparr>date = 19550, stop = ''Wellington'', total = 150\<rparr>]"

definition ex_after :: "daily list" where
  "ex_after = drop 4 ex_daily"


definition ex_big :: "int row list" where
  "ex_big =
     [\<lparr>Service_Date = 19523, Stop_Name = ''Airport'',
        Route_Or_Line = ''Blue Line'', Total_Entries = 2 ^ 62, day = ''Weekday''\<rparr>,
      \<lparr>Service_Date = 19523, Stop_Name = ''Airport'',
        Route_Or_Line = ''Blue Line'', Total_Entries = 2 ^ 62, day = ''Weekday''\<rparr>]"











section \<open>The record filter\<close>

subsection \<open>Lists\<close>

lemma those_map_Some:
  "those (map f xs) = Some ys \<Longrightarrow> list_all2 (\<lambda>x y. f x = Some y) xs ys"
  by (induction xs arbitrary: ys) (auto split: option.splits)

lemma those_map_Some_id: "those (map Some ys) = Some ys"
  by (induction ys) auto

lemma those_map_defined:
  "(\<forall>x\<in>set xs. f x \<noteq> None) \<Longrightarrow> \<exists>ys. those (map f xs) = Some ys"
  by (induction xs) auto

lemma list_all2_filter_both:
  "list_all2 P xs ys \<Longrightarrow> (\<And>x y. P x y \<Longrightarrow> Q x = R y)
     \<Longrightarrow> list_all2 (\<lambda>x y. P x y \<and> Q x) (filter Q xs) (filter R ys)"
  by (induction rule: list_all2_induct) auto

lemma list_all2_right_all: "list_all2 (\<lambda>x y. Q y) xs ys \<Longrightarrow> \<forall>y\<in>set ys. Q y"
  by (induction rule: list_all2_induct) auto

lemma list_all2_left_ex:
  "list_all2 P xs ys \<Longrightarrow> x \<in> set xs \<Longrightarrow> \<exists>y\<in>set ys. P x y"
  by (induction rule: list_all2_induct) auto

subsection \<open>Lines 66 to 81\<close>

lemma clean_frame_result:
  assumes "snd (clean_frame parse df stops line wk) = Inr out"
  shows "list_all2 (\<lambda>r c. to_datetime parse (Service_Date r) = Some (Service_Date c)
            \<and> Stop_Name c = Stop_Name r \<and> Route_Or_Line c = line
            \<and> Total_Entries c = Total_Entries r \<and> day c = day r)
          (filter (\<lambda>r. (Stop_Name r \<in> set stops \<or> Route_Or_Line r = line)
                       \<and> (wk \<longrightarrow> day r = ''Weekday'')) df) out"
proof -
  let ?df1 = "map (assign_line stops line) df"
  from assms obtain df2 where t: "those (map (convert_row parse) ?df1) = Some df2"
    and out: "out = filter (\<lambda>r. Route_Or_Line r = line)
                 (if wk then filter (\<lambda>r. day r = ''Weekday'') df2 else df2)"
    by (auto simp: clean_frame_def Let_def split: option.splits)
  from those_map_Some [OF t]
  have "list_all2 (\<lambda>x y. convert_row parse (assign_line stops line x) = Some y) df df2"
    by (simp add: list_all2_map1)
  then have a: "list_all2 (\<lambda>r c. to_datetime parse (Service_Date r) = Some (Service_Date c)
            \<and> Stop_Name c = Stop_Name r
            \<and> Route_Or_Line c = (if Stop_Name r \<in> set stops then line else Route_Or_Line r)
            \<and> Total_Entries c = Total_Entries r \<and> day c = day r) df df2"
    by (rule list_all2_mono) (auto simp: convert_row_def assign_line_def set_date_def)
  have "list_all2 (\<lambda>r c. (to_datetime parse (Service_Date r) = Some (Service_Date c)
            \<and> Stop_Name c = Stop_Name r
            \<and> Route_Or_Line c = (if Stop_Name r \<in> set stops then line else Route_Or_Line r)
            \<and> Total_Entries c = Total_Entries r \<and> day c = day r)
            \<and> ((Stop_Name r \<in> set stops \<or> Route_Or_Line r = line)
                       \<and> (wk \<longrightarrow> day r = ''Weekday'')))
          (filter (\<lambda>r. (Stop_Name r \<in> set stops \<or> Route_Or_Line r = line)
                       \<and> (wk \<longrightarrow> day r = ''Weekday'')) df)
          (filter (\<lambda>c. Route_Or_Line c = line \<and> (wk \<longrightarrow> day c = ''Weekday'')) df2)"
    by (rule list_all2_filter_both [OF a]) auto
  moreover have "out = filter (\<lambda>c. Route_Or_Line c = line \<and> (wk \<longrightarrow> day c = ''Weekday'')) df2"
    by (simp add: out conj_commute)
  ultimately show ?thesis
    by (auto elim!: list_all2_mono split: if_splits)
qed

lemma clean_frame_returns:
  assumes "\<forall>r\<in>set df. to_datetime parse (Service_Date r) \<noteq> None"
  shows "\<exists>out. snd (clean_frame parse df stops line wk) = Inr out"
proof -
  have "\<forall>r\<in>set (map (assign_line stops line) df). convert_row parse r \<noteq> None"
    using assms by (auto simp: convert_row_def assign_line_def)
  from those_map_defined [OF this] show ?thesis
    by (auto simp: clean_frame_def Let_def)
qed

lemma clean_frame_again:
  assumes "snd (clean_frame parse df stops line wk) = Inr out"
  shows "clean_frame parse (fst (clean_frame parse df stops line wk)) stops line wk'
       = (fst (clean_frame parse df stops line wk), snd (clean_frame parse df stops line wk'))"
proof -
  let ?df1 = "map (assign_line stops line) df"
  from assms obtain df2 where t: "those (map (convert_row parse) ?df1) = Some df2"
    by (auto simp: clean_frame_def Let_def split: option.splits)
  have f: "\<And>w. fst (clean_frame parse df stops line w) = map stamp df2"
    using t by (simp add: clean_frame_def Let_def)
  from those_map_Some [OF t]
  have "list_all2 (\<lambda>x y. convert_row parse (assign_line stops line x) = Some y) df df2"
    by (simp add: list_all2_map1)
  then have "list_all2 (\<lambda>x y. assign_line stops line (stamp y) = stamp y) df df2"
    by (rule list_all2_mono)
      (auto simp: convert_row_def assign_line_def stamp_def set_date_def split: if_splits)
  then have "\<forall>y\<in>set df2. assign_line stops line (stamp y) = stamp y"
    by (rule list_all2_right_all)
  then have "map (assign_line stops line) (map stamp df2) = map stamp df2"
    by (simp add: map_idI)
  moreover have "those (map (convert_row parse) (map stamp df2)) = Some df2"
  proof -
    have "map (convert_row parse) (map stamp df2) = map Some df2"
      by (simp add: convert_row_def stamp_def set_date_def to_datetime_def)
    then show ?thesis by (simp only: those_map_Some_id)
  qed
  ultimately show ?thesis
    using t by (simp add: clean_frame_def Let_def del: map_map)
qed

text \<open>
  Claim C1. With a line that is neither \<open>'Blue Line'\<close> nor \<open>'Orange Line'\<close> the call does
  not return: the \<open>else\<close> branch prints its message and falls through to line 66, where
  \<open>stops\<close> was never bound. The exception is Python's \<open>UnboundLocalError\<close>, whatever the
  frame and the weekday flag, and the caller's frame is left as it was. The program has
  no \<open>ConfigurationError\<close>.
\<close>

theorem get_line_entries_unknown_line:
  "get_line_entries parse df ''Red Line'' weekdays_only = (df, Inl UnboundLocalError)"
  by (simp add: get_line_entries_def)

text \<open>
  Claim C5. For the two supported lines, on a frame whose dates all parse, the call
  returns, and the records returned are, in the order of the input and record by record,
  the input records that pass the selection, with the date converted and the line name in
  \<open>Route Or Line\<close>. The selection is not membership of the stop in the line's station
  list: a record passes when its stop is one of the shared stops \<open>stops_of line\<close> or its
  \<open>Route Or Line\<close> already is the line; for the Orange Line the stop must also be in
  \<open>OL_STATIONS\<close>; with \<open>weekdays_only\<close> the day must be \<open>'Weekday'\<close>.
\<close>

theorem get_line_entries_selects:
  assumes "line = ''Blue Line'' \<or> line = ''Orange Line''"
    and "\<forall>r\<in>set df. to_datetime parse (Service_Date r) \<noteq> None"
  shows "\<exists>out. snd (get_line_entries parse df line weekdays_only) = Inr out \<and>
     list_all2 (\<lambda>r c. to_datetime parse (Service_Date r) = Some (Service_Date c)
            \<and> Stop_Name c = Stop_Name r \<and> Route_Or_Line c = line
            \<and> Total_Entries c = Total_Entries r \<and> day c = day r)
       (filter (\<lambda>r. (line = ''Orange Line'' \<longrightarrow> Stop_Name r \<in> set OL_STATIONS)
                  \<and> (Stop_Name r \<in> set (stops_of line) \<or> Route_Or_Line r = line)
                  \<and> (weekdays_only \<longrightarrow> day r = ''Weekday'')) df) out"
proof -
  let ?ol = "filter (\<lambda>r. Stop_Name r \<in> set OL_STATIONS) df"
  from assms(1) show ?thesis
  proof
    assume l: "line = ''Blue Line''"
    from clean_frame_returns [OF assms(2)] obtain out
      where o: "snd (clean_frame parse df (stops_of line) line weekdays_only) = Inr out"
      by blast
    from clean_frame_result [OF o] o l show ?thesis
      by (auto simp: get_line_entries_def stops_of_def)
  next
    assume l: "line = ''Orange Line''"
    have "\<forall>r\<in>set ?ol. to_datetime parse (Service_Date r) \<noteq> None"
      using assms(2) by simp
    from clean_frame_returns [OF this] obtain out
      where o: "snd (clean_frame parse ?ol (stops_of line) line weekdays_only) = Inr out"
      by blast
    from clean_frame_result [OF o] o l show ?thesis
      by (auto simp: get_line_entries_def stops_of_def conj_ac)
  qed
qed

text \<open>
  A record at an Orange Line station (Oak Grove) that carries another line's label is not
  returned, so the output is not the set of records whose stop is in the station list.
\<close>

theorem get_line_entries_selects_counterexample:
  "Stop_Name ex_green \<in> set OL_STATIONS \<and>
   snd (get_line_entries ex_parse [ex_green] ''Orange Line'' False) = Inr []"
  by code_simp

theorem get_line_entries_selects_witness:
  "\<exists>out. snd (get_line_entries ex_parse ex_frame ''Orange Line'' False) = Inr out \<and>
     list_all2 (\<lambda>r c. to_datetime ex_parse (Service_Date r) = Some (Service_Date c)
            \<and> Stop_Name c = Stop_Name r \<and> Route_Or_Line c = ''Orange Line''
            \<and> Total_Entries c = Total_Entries r \<and> day c = day r)
       (filter (\<lambda>r. (''Orange Line'' = ''Orange Line'' \<longrightarrow> Stop_Name r \<in> set OL_STATIONS)
                  \<and> (Stop_Name r \<in> set (stops_of ''Orange Line'') \<or> Route_Or_Line r = ''Orange Line'')
                  \<and> (False \<longrightarrow> day r = ''Weekday'')) ex_frame) out"
proof -
  have "\<forall>r\<in>set ex_frame. to_datetime ex_parse (Service_Date r) \<noteq> None"
    by (simp add: ex_frame_def ex_green_def ex_parse_def to_datetime_def)
  then show ?thesis
    by (rule get_line_entries_selects [OF disjI2 [OF refl]])
qed

text \<open>
  Claim C8. Each function of the model is a function of its arguments, so nothing is kept
  between calls; \<open>daily_ridership\<close>, \<open>overall_stats\<close>, \<open>station_stats\<close> and
  \<open>check_missing\<close> only read their frames. \<open>get_line_entries\<close> writes into the caller's
  frame for the Blue Line (the first component of its result), and leaves it alone for the
  Orange Line. After a call that returned, a second call on the frame the first one left,
  with either weekday flag, leaves that frame as it is and returns what a call on the
  original frame returns: the writes do not change any later result.
\<close>

theorem get_line_entries_caller_frame:
  assumes "line = ''Blue Line'' \<or> line = ''Orange Line''"
    and "snd (get_line_entries parse df line weekdays_only) = Inr out"
  shows "get_line_entries parse (fst (get_line_entries parse df line weekdays_only)) line again
           = (fst (get_line_entries parse df line weekdays_only),
              snd (get_line_entries parse df line again)) \<and>
         (line = ''Orange Line'' \<longrightarrow> fst (get_line_entries parse df line weekdays_only) = df)"
  using assms(1)
proof
  assume l: "line = ''Blue Line''"
  with assms(2) have "snd (clean_frame parse df [''Government Center'', ''State Street'']
      ''Blue Line'' weekdays_only) = Inr out"
    by (simp add: get_line_entries_def)
  from clean_frame_again [OF this, of again] l show ?thesis
    by (simp add: get_line_entries_def)
next
  assume l: "line = ''Orange Line''"
  then show ?thesis by (simp add: get_line_entries_def)
qed

text \<open>
  The Blue Line call changes the caller's frame: the shared stop is relabelled and the
  dates become timestamps.
\<close>

theorem get_line_entries_caller_frame_counterexample:
  "fst (get_line_entries ex_parse ex_frame ''Blue Line'' False) \<noteq> ex_frame"
  by code_simp

theorem get_line_entries_caller_frame_witness:
  "snd (get_line_entries ex_parse ex_frame ''Blue Line'' False)
     = Inr [\<lparr>Service_Date = 19523, Stop_Name = ''State Street'',
               Route_Or_Line = ''Blue Line'', Total_Entries = 50, day = ''Weekday''\<rparr>,
            \<lparr>Service_Date = 19548, Stop_Name = ''Airport'',
               Route_Or_Line = ''Blue Line'', Total_Entries = 30, day = ''Weekday''\<rparr>] \<and>
   get_line_entries ex_parse (fst (get_line_entries ex_parse ex_frame ''Blue Line'' False))
       ''Blue Line'' True
     = (fst (get_line_entries ex_parse ex_frame ''Blue Line'' False),
        snd (get_line_entries ex_parse ex_frame ''Blue Line'' True))"
proof -
  have h: "snd (get_line_entries ex_parse ex_frame ''Blue Line'' False)
     = Inr [\<lparr>Service_Date = 19523, Stop_Name = ''State Street'',
               Route_Or_Line = ''Blue Line'', Total_Entries = 50, day = ''Weekday''\<rparr>,
            \<lparr>Service_Date = 19548, Stop_Name = ''Airport'',
               Route_Or_Line = ''Blue Line'', Total_Entries = 30, day = ''Weekday''\<rparr>]"
    by code_simp
  from get_line_entries_caller_frame [OF _ h, of True] h show ?thesis
    by simp
qed

section \<open>The daily aggregator\<close>

lemma round_half_even_of_int: "round_half_even (of_int n) = n"
  by (simp add: round_half_even_def)

lemma wrap64_id: "int64_range x \<Longrightarrow> wrap64 x = x"
  by (simp add: wrap64_def int64_range_def)

lemma daily_keys:
  "map (\<lambda>r. (date r, stop r)) (daily_ridership df)
     = sort (remdups (map (\<lambda>r. (Service_Date r, Stop_Name r)) df))"
  by (simp add: daily_ridership_def comp_def case_prod_unfold)

text \<open>
  Claim C6. \<open>daily_ridership\<close> returns one row per pair of date and stop of the input: the
  keys of its rows are distinct and are exactly the pairs that occur. The total of a row
  is the sum of \<open>Total Entries\<close> over all input records of that pair (no record is left
  out), taken in int64. Whenever that sum lies between \<open>- (2 ^ 63)\<close> and \<open>2 ^ 63 - 1\<close> the
  total is the sum itself, and the \<open>round\<close> of line 103, applied to an integer column,
  leaves it as it is. A sum outside this range wraps around: two records of \<open>2 ^ 62\<close> for
  one pair give the total \<open>- (2 ^ 63)\<close>.
\<close>

theorem daily_ridership_groups:
  "distinct (map (\<lambda>r. (date r, stop r)) (daily_ridership df)) \<and>
   set (map (\<lambda>r. (date r, stop r)) (daily_ridership df))
     = (\<lambda>r. (Service_Date r, Stop_Name r)) ` set df \<and>
   (\<forall>r\<in>set (daily_ridership df).
      total r = wrap64 (sum_list (map Total_Entries
                  (filter (\<lambda>x. Service_Date x = date r \<and> Stop_Name x = stop r) df))) \<and>
      (int64_range (sum_list (map Total_Entries
                  (filter (\<lambda>x. Service_Date x = date r \<and> Stop_Name x = stop r) df)))
       \<longrightarrow> total r = sum_list (map Total_Entries
                  (filter (\<lambda>x. Service_Date x = date r \<and> Stop_Name x = stop r) df)) \<and>
           total r = round_half_even (of_int (sum_list (map Total_Entries
                  (filter (\<lambda>x. Service_Date x = date r \<and> Stop_Name x = stop r) df))))))"
proof -
  have w: "\<forall>r\<in>set (daily_ridership df).
      total r = wrap64 (sum_list (map Total_Entries
                  (filter (\<lambda>x. Service_Date x = date r \<and> Stop_Name x = stop r) df)))"
    by (auto simp: daily_ridership_def)
  have k: "distinct (map (\<lambda>r. (date r, stop r)) (daily_ridership df))"
    by (simp add: daily_keys)
  have s: "set (map (\<lambda>r. (date r, stop r)) (daily_ridership df))
     = (\<lambda>r. (Service_Date r, Stop_Name r)) ` set df"
    by (simp only: daily_keys set_sort set_remdups set_map)
  from w have "\<forall>r\<in>set (daily_ridership df).
      total r = wrap64 (sum_list (map Total_Entries
                  (filter (\<lambda>x. Service_Date x = date r \<and> Stop_Name x = stop r) df))) \<and>
      (int64_range (sum_list (map Total_Entries
                  (filter (\<lambda>x. Service_Date x = date r \<and> Stop_Name x = stop r) df)))
       \<longrightarrow> total r = sum_list (map Total_Entries
                  (filter (\<lambda>x. Service_Date x = date r \<and> Stop_Name x = stop r) df)) \<and>
           total r = round_half_even (of_int (sum_list (map Total_Entries
                  (filter (\<lambda>x. Service_Date x = date r \<and> Stop_Name x = stop r) df)))))"
    by (simp add: wrap64_id round_half_even_of_int)
  with k s show ?thesis by (intro conjI)
qed

theorem daily_ridership_groups_counterexample:
  "daily_ridership ex_big = [\<lparr>date = 19523, stop = ''Airport'', total = - (2 ^ 63)\<rparr>] \<and>
   sum_list (map Total_Entries
     (filter (\<lambda>x. Service_Date x = 19523 \<and> Stop_Name x = ''Airport'') ex_big)) = 2 ^ 63"
  by code_simp

theorem daily_ridership_groups_witness:
  "daily_ridership ex_cleaned
     = [\<lparr>date = 19523, stop = ''Oak Grove'', total = 100\<rparr>,
        \<lparr>date = 19523, stop = ''Wellington'', total = 12\<rparr>] \<and>
   distinct (map (\<lambda>r. (date r, stop r)) (daily_ridership ex_cleaned)) \<and>
   map Total_Entries
     (filter (\<lambda>x. Service_Date x = 19523 \<and> Stop_Name x = ''Wellington'') ex_cleaned) = [5, 7] \<and>
   total \<lparr>date = 19523, stop = ''Wellington'', total = 12\<rparr>
     = sum_list (map Total_Entries
         (filter (\<lambda>x. Service_Date x = 19523 \<and> Stop_Name x = ''Wellington'') ex_cleaned))"
proof -
  have v: "daily_ridership ex_cleaned
     = [\<lparr>date = 19523, stop = ''Oak Grove'', total = 100\<rparr>,
        \<lparr>date = 19523, stop = ''Wellington'', total = 12\<rparr>]"
    by code_simp
  have e: "map Total_Entries
     (filter (\<lambda>x. Service_Date x = 19523 \<and> Stop_Name x = ''Wellington'') ex_cleaned) = [5, 7]"
    by code_simp
  from daily_ridership_groups [of ex_cleaned] show ?thesis
    by (simp add: v e int64_range_def)
qed

section \<open>The completeness checker\<close>

lemma count_list_length_filter: "count_list xs x = length (filter (\<lambda>y. y = x) xs)"
  by (induction xs) auto

lemma count_list_map_filter: "count_list (map f xs) d = length (filter (\<lambda>r. f r = d) xs)"
  by (induction xs) auto

lemma concat_singletons: "concat (map ((\<lambda>d. [f d]) \<circ> g) xs) = map (f \<circ> g) xs"
  by (induction xs) auto

lemma value_counts_set:
  "set (value_counts ds) = (\<lambda>d. (d, count_list ds d)) ` set ds"
  by (simp add: value_counts_def)

lemma value_counts_distinct: "distinct (map fst (value_counts ds))"
proof -
  let ?xs = "map (\<lambda>d. (d, count_list ds d)) (remdups ds)"
  have "distinct (map fst ?xs)" by (simp add: comp_def)
  then have "distinct ?xs \<and> inj_on fst (set ?xs)" by (simp only: distinct_map)
  then have "distinct (sort_key (\<lambda>(d, c). - int c) ?xs)
      \<and> inj_on fst (set (sort_key (\<lambda>(d, c). - int c) ?xs))"
    by (simp only: distinct_sort set_sort)
  then show ?thesis by (simp only: value_counts_def distinct_map)
qed

lemma dates_below_set:
  "set (dates_below df n) = {d \<in> date ` set df. length (filter (\<lambda>r. date r = d) df) < n}"
proof -
  have "set (dates_below df n)
      = fst ` {p \<in> (\<lambda>d. (d, count_list (map date df) d)) ` date ` set df. snd p < n}"
    by (auto simp: dates_below_def value_counts_set case_prod_unfold)
  also have "\<dots> = {d \<in> date ` set df. count_list (map date df) d < n}"
    by force
  finally show ?thesis
    by (simp add: count_list_map_filter)
qed

lemma dates_below_distinct: "distinct (dates_below df n)"
  unfolding dates_below_def by (rule distinct_map_filter) (rule value_counts_distinct)

lemma check_missing_prefix:
  assumes "startswith line ''Orange Line'' \<and> S = OL_STATIONS
         \<or> \<not> startswith line ''Orange Line'' \<and> startswith line ''Blue Line'' \<and> S = BL_STATIONS"
  shows "check_missing df line =
     (map (\<lambda>d. \<lparr>msg_line = line, msg_date = d,
                msg_stops = set S - set (map stop (filter (\<lambda>r. date r = d) df))\<rparr>)
        (dates_below df (length S)), None)"
proof -
  from assms show ?thesis
    by (auto simp: check_missing_def Let_def concat_singletons dates_below_def)
qed

lemma rows_per_date:
  assumes "distinct (map (\<lambda>r. (date r, stop r)) df)"
  shows "length (filter (\<lambda>r. date r = d) df) = card (stop ` {r \<in> set df. date r = d})"
proof -
  let ?rs = "filter (\<lambda>r. date r = d) df"
  from assms have "distinct (map (\<lambda>r. (date r, stop r)) ?rs)"
    by (rule distinct_map_filter)
  then have "inj_on (\<lambda>r. (date r, stop r)) (set ?rs)" and dr: "distinct ?rs"
    by (simp_all only: distinct_map)
  then have "inj_on stop (set ?rs)"
    by (auto simp: inj_on_def)
  with dr have "distinct (map stop ?rs)"
    by (simp only: distinct_map)
  then have "card (set (map stop ?rs)) = length (map stop ?rs)"
    by (rule distinct_card)
  moreover have "set (map stop ?rs) = stop ` {r \<in> set df. date r = d}"
    by auto
  ultimately show ?thesis by simp
qed

text \<open>
  Claim C10. With a line name that starts with neither \<open>'Orange Line'\<close> nor
  \<open>'Blue Line'\<close>, \<open>check_missing\<close> prints nothing and ends normally, whatever the frame.
\<close>

theorem check_missing_other_line:
  assumes "\<not> startswith line ''Orange Line''" and "\<not> startswith line ''Blue Line''"
  shows "check_missing after_sumner line = ([], None)"
  using assms by (simp add: check_missing_def)

theorem check_missing_other_line_witness:
  "check_missing ex_after ''Red Line'' = ([], None)"
  by (rule check_missing_other_line) (simp_all add: startswith_def)

text \<open>
  Claim C4. For a line name that starts with \<open>'Orange Line'\<close> (expected stations
  \<open>OL_STATIONS\<close>) or else with \<open>'Blue Line'\<close> (\<open>BL_STATIONS\<close>), \<open>check_missing\<close> prints one
  line for each date whose number of rows is below the number of expected stations, and
  for no other date; in a frame of daily totals, which has one row per date and stop, that
  number is the number of reporting stations. The
  stops printed for a date are the expected stations without the stops that have a row on
  that date. The function prints this and returns \<open>None\<close>: the report is not a value of
  the call.
\<close>

theorem check_missing_reports:
  assumes "startswith line ''Orange Line'' \<and> S = OL_STATIONS
         \<or> \<not> startswith line ''Orange Line'' \<and> startswith line ''Blue Line'' \<and> S = BL_STATIONS"
  shows "set (map msg_date (fst (check_missing after_sumner line)))
           = {d \<in> date ` set after_sumner.
                length (filter (\<lambda>r. date r = d) after_sumner) < length S} \<and>
         (distinct (map (\<lambda>r. (date r, stop r)) after_sumner) \<longrightarrow>
            set (map msg_date (fst (check_missing after_sumner line)))
              = {d \<in> date ` set after_sumner.
                   card (stop ` {r \<in> set after_sumner. date r = d}) < length S}) \<and>
         distinct (map msg_date (fst (check_missing after_sumner line))) \<and>
         (\<forall>m\<in>set (fst (check_missing after_sumner line)).
            msg_stops m = set S - stop ` {r \<in> set after_sumner. date r = msg_date m}) \<and>
         snd (check_missing after_sumner line) = None"
proof -
  note cm = check_missing_prefix [OF assms, of after_sumner]
  have 1: "map msg_date (fst (check_missing after_sumner line)) = dates_below after_sumner (length S)"
    by (simp add: cm comp_def)
  have 2: "\<forall>m\<in>set (fst (check_missing after_sumner line)).
            msg_stops m = set S - stop ` {r \<in> set after_sumner. date r = msg_date m}"
    by (auto simp: cm)
  have 3: "distinct (map (\<lambda>r. (date r, stop r)) after_sumner) \<longrightarrow>
      {d \<in> date ` set after_sumner. length (filter (\<lambda>r. date r = d) after_sumner) < length S}
      = {d \<in> date ` set after_sumner.
           card (stop ` {r \<in> set after_sumner. date r = d}) < length S}"
    by (simp add: rows_per_date)
  from 1 2 3 show ?thesis
    by (simp add: dates_below_set dates_below_distinct cm)
qed

text \<open>
  On a day with two of the nine Orange Line stations the report is printed, and the call
  still evaluates to \<open>None\<close>.
\<close>

lemma ex_printed:
  "fst (check_missing ex_after ''Orange Line'')
     = [\<lparr>msg_line = ''Orange Line'', msg_date = 19550,
         msg_stops = {''Malden Center'', ''Assembly'', ''Sullivan Square'',
            ''Community College'', ''North Station'', ''Haymarket'', ''State Street''}\<rparr>]"
  by code_simp

theorem check_missing_reports_counterexample:
  "fst (check_missing ex_after ''Orange Line'')
     = [\<lparr>msg_line = ''Orange Line'', msg_date = 19550,
         msg_stops = {''Malden Center'', ''Assembly'', ''Sullivan Square'',
            ''Community College'', ''North Station'', ''Haymarket'', ''State Street''}\<rparr>] \<and>
   snd (check_missing ex_after ''Orange Line'') = None"
  by code_simp

theorem check_missing_reports_witness:
  "set (map msg_date (fst (check_missing ex_after ''Orange Line''))) = {19550} \<and>
   distinct (map msg_date (fst (check_missing ex_after ''Orange Line''))) \<and>
   fst (check_missing ex_after ''Orange Line'') \<noteq> [] \<and>
   list_all (\<lambda>m. msg_stops m = set OL_STATIONS - stop ` {r \<in> set ex_after. date r = msg_date m})
     (fst (check_missing ex_after ''Orange Line'')) \<and>
   snd (check_missing ex_after ''Orange Line'') = None"
proof -
  have p: "startswith ''Orange Line'' ''Orange Line'' \<and> OL_STATIONS = OL_STATIONS
         \<or> \<not> startswith ''Orange Line'' ''Orange Line'' \<and> startswith ''Orange Line'' ''Blue Line''
             \<and> OL_STATIONS = BL_STATIONS"
    by (simp add: startswith_def)
  have d: "{d \<in> date ` set ex_after.
            length (filter (\<lambda>r. date r = d) ex_after) < length OL_STATIONS} = {19550}"
    by (auto simp: ex_after_def ex_daily_def OL_STATIONS_def)
  have n: "fst (check_missing ex_after ''Orange Line'') \<noteq> []"
    by code_simp
  from check_missing_reports [OF p, of ex_after] d n show ?thesis
    by (simp add: list_all_iff)
qed

section \<open>Station statistics\<close>

subsection \<open>Columns and rows\<close>


lemma column_Inr:
  "column (map f xs) = Inr ys \<Longrightarrow> list_all2 (\<lambda>x y. f x = Inr y) xs ys"
  by (induction xs arbitrary: ys) (auto split: sum.splits)














lemma rounded_means_Inr:
  assumes "rounded_means B A = Inr ms"
  shows "list_all2 (\<lambda>s (s', b, a). s' = s \<and> int_round (mean (entries_of B s)) = Inr b
                      \<and> int_round (mean (entries_of A s)) = Inr a)
           (station_names B A) ms"
proof -
  from assms have "list_all2 (\<lambda>x y. (case x of (s, bc, ac) \<Rightarrow>
        (case int_round bc of Inl e \<Rightarrow> Inl e
         | Inr b \<Rightarrow> (case int_round ac of Inl e \<Rightarrow> Inl e | Inr a \<Rightarrow> Inr (s, b, a)))) = Inr y)
      (station_means B A) ms"
    unfolding rounded_means_def by (rule column_Inr)
  then have "list_all2 (\<lambda>s y. (case int_round (mean (entries_of B s)) of Inl e \<Rightarrow> Inl e
        | Inr b \<Rightarrow> (case int_round (mean (entries_of A s)) of Inl e \<Rightarrow> Inl e
            | Inr a \<Rightarrow> Inr (s, b, a))) = Inr y)
      (station_names B A) ms"
    by (simp add: station_means_def list_all2_map1)
  then show ?thesis
    by (rule list_all2_mono) (auto split: sum.splits)
qed

lemma station_names_set: "set (station_names B A) = set (map stop B) \<union> set (map stop A)"
  by (simp add: station_names_def)





subsection \<open>Rounding errors\<close>


lemma pow2_powi: "pow2 e = 2 powi e"
  by (auto simp: pow2_def power_int_def inverse_eq_divide power_one_over)




lemma pow2_nat: "pow2 (int n) = 2 ^ n"
  by (simp add: pow2_def)

lemma pow2_Suc: "pow2 (e + 1) = 2 * pow2 e"
  by (simp add: pow2_powi power_int_add)


















subsection \<open>When the table is built\<close>

text \<open>
  A station without rows in one of the two windows has the mean NaN there, on which
  \<open>int(round(x))\<close> raises: the rounded means exist exactly when the two windows have the
  same stations. Under \<open>small_sums\<close> they are the exactly rounded means.
\<close>

lemma entries_of_empty: "entries_of df s = [] \<longleftrightarrow> s \<notin> set (map stop df)"
  by (auto simp: entries_of_def filter_empty_conv)

lemma int_round_mean_Inr: "int_round (mean xs) = Inr b \<Longrightarrow> xs \<noteq> []"
  by (auto simp: mean_def int_round_def)

lemma rounded_means_both:
  assumes "rounded_means B A = Inr ms"
  shows "set (map stop B) = set (map stop A)"
proof -
  have both: "entries_of B s \<noteq> [] \<and> entries_of A s \<noteq> []"
    if "s \<in> set (station_names B A)" for s
  proof -
    from list_all2_left_ex [OF rounded_means_Inr [OF assms] that]
    obtain y where p: "(case y of (s', b, a) \<Rightarrow> s' = s
        \<and> int_round (mean (entries_of B s)) = Inr b
        \<and> int_round (mean (entries_of A s)) = Inr a)"
      by blast
    obtain s' b a where "y = (s', b, a)" by (cases y)
    with p have "int_round (mean (entries_of B s)) = Inr b"
      and "int_round (mean (entries_of A s)) = Inr a" by simp_all
    then show ?thesis by (simp add: int_round_mean_Inr)
  qed
  show ?thesis
  proof (intro equalityI subsetI)
    fix s assume "s \<in> set (map stop B)"
    then have "s \<in> set (station_names B A)" by (simp add: station_names_set)
    from both [OF this] show "s \<in> set (map stop A)" by (simp only: entries_of_empty) simp
  next
    fix s assume "s \<in> set (map stop A)"
    then have "s \<in> set (station_names B A)" by (simp add: station_names_set)
    from both [OF this] show "s \<in> set (map stop B)" by (simp only: entries_of_empty) simp
  qed
qed







subsection \<open>The examples, evaluated\<close>








lemma ex_means:
  "rounded_mean_exact [100, 101, 104] = 102"
  "rounded_mean_exact [150, 151] = 150"
  by code_simp+





















subsection \<open>The total row\<close>







subsection \<open>The printed table\<close>
















subsection \<open>A zero baseline\<close>





end
